theory Spec2Isabelle
  imports Main "HOL-Library.Sublist"
begin

section \<open>Values of the host language\<close>

text \<open>
  A value that a JavaScript \<^verbatim>\<open>throw\<close> (or a rejected promise) carries. \<open>JsError n m\<close>
  is an object for which \<^verbatim>\<open>error instanceof Error\<close> holds, with its \<^verbatim>\<open>name\<close> and
  \<^verbatim>\<open>message\<close>; \<open>JsOther v\<close> is any other thrown value, represented by the string
  that \<^verbatim>\<open>String(error)\<close> yields for it.
\<close>

datatype thrown = JsError (error_name: string) (error_message: string) | JsOther string

text \<open>The expression \<^verbatim>\<open>error instanceof Error ? error.message : String(error)\<close>.\<close>

fun message_of :: "thrown \<Rightarrow> string" where
  "message_of (JsError n m) = m"
| "message_of (JsOther v) = v"

fun instanceof_Error :: "thrown \<Rightarrow> bool" where
  "instanceof_Error (JsError n m) = True"
| "instanceof_Error (JsOther v) = False"

text \<open>\<^verbatim>\<open>new Error(msg)\<close>: an Error object whose name is \<^verbatim>\<open>Error\<close>.\<close>

definition new_Error :: "string \<Rightarrow> thrown" where
  "new_Error msg = JsError ''Error'' msg"

text \<open>\<^verbatim>\<open>String.prototype.endsWith\<close> with one argument, on strings as character lists.\<close>

definition endsWith :: "string \<Rightarrow> string \<Rightarrow> bool" where
  "endsWith s suf =
     (length suf \<le> length s \<and> drop (length s - length suf) s = suf)"

text \<open>A \<^verbatim>\<open>File\<close> object: its name, its content type and its bytes.\<close>

record File =
  name :: string
  type :: string
  content :: string

section \<open>services/TauriService.ts\<close>

text \<open>
  The entries that \<^verbatim>\<open>window.__TAURI__.fs.readDir\<close> resolves to, and the three
  results of \<^verbatim>\<open>window.__TAURI__.dialog.open\<close>.
\<close>

record dir_entry =
  entry_name :: string
  entry_path :: string
  isFile :: bool

datatype dialog_result = DialogNull | DialogPath string | DialogPaths "string list"

text \<open>
  The handles of the browser's File System Access API. A file handle has a name and the
  outcome of its \<^verbatim>\<open>getFile()\<close>; a directory handle has a name, the entries that the
  asynchronous iterator \<^verbatim>\<open>values()\<close> yields, and the error with which the iteration
  breaks off after them, if it does.
\<close>

datatype fs_handle =
    FileHandle string "thrown + File"
  | DirectoryHandle string "fs_handle list" "thrown option"

text \<open>
  What \<^verbatim>\<open>selectDirectory\<close> returns apart from null, and what \<^verbatim>\<open>scanDirectory\<close>
  and \<^verbatim>\<open>readMarkdownFilesFromDirectory\<close> receive: a path string or a handle.
\<close>

datatype directory = Path string | Handle fs_handle

text \<open>
  \<^verbatim>\<open>window.__TAURI__\<close>: the outcome of the directory dialog (a promise that resolves
  or rejects), \<^verbatim>\<open>fs.readDir\<close> and \<^verbatim>\<open>fs.readFile\<close>. The source passes its argument
  to \<^verbatim>\<open>readDir\<close> under a cast (\<^verbatim>\<open>dirPath as string\<close>), which checks nothing at run
  time, so \<open>readDir\<close> receives the directory reference as it is.
\<close>

record tauri_api =
  dialog_open :: "thrown + dialog_result"
  readDir :: "directory \<Rightarrow> thrown + dir_entry list"
  readFile :: "string \<Rightarrow> thrown + string"

text \<open>
  The browser window: \<^verbatim>\<open>window.showDirectoryPicker\<close> is absent (\<open>None\<close>) or is a
  picker whose promise rejects or resolves to a directory handle.
\<close>

record browser_api =
  showDirectoryPicker :: "(thrown + fs_handle) option"

datatype host = Tauri tauri_api | Browser browser_api

text \<open>The lines written with \<^verbatim>\<open>console.error\<close>: the text and the error logged with it.\<close>

type_synonym console = "(string \<times> thrown) list"

fun isTauri :: "host \<Rightarrow> bool" where
  "isTauri (Tauri api) = True"
| "isTauri (Browser w) = False"

text \<open>
  \<^verbatim>\<open>selectDirectory\<close>. In Tauri mode the dialog's result is returned, \<^verbatim>\<open>result[0] || null\<close>
  for an array and \<^verbatim>\<open>result || null\<close> otherwise (the empty string is falsy), and a
  rejection of the dialog propagates. In browser mode the call of the picker is inside
  \<^verbatim>\<open>try\<close>: calling an absent picker throws a TypeError, every error is caught, logged
  unless it is an Error named \<^verbatim>\<open>AbortError\<close>, and null is returned.
\<close>

definition or_null :: "string \<Rightarrow> directory option" where
  "or_null s = (if s = [] then None else Some (Path s))"

definition call_showDirectoryPicker :: "browser_api \<Rightarrow> thrown + fs_handle" where
  "call_showDirectoryPicker w =
     (case showDirectoryPicker w of
        None \<Rightarrow> Inl (JsError ''TypeError'' ''window.showDirectoryPicker is not a function'')
      | Some outcome \<Rightarrow> outcome)"

fun selectDirectory :: "host \<Rightarrow> (thrown + directory option) \<times> console" where
  "selectDirectory (Tauri api) =
     (case dialog_open api of
        Inl e \<Rightarrow> (Inl e, [])
      | Inr (DialogPaths ps) \<Rightarrow>
          (Inr (case ps of [] \<Rightarrow> None | p # _ \<Rightarrow> or_null p), [])
      | Inr (DialogPath p) \<Rightarrow> (Inr (or_null p), [])
      | Inr DialogNull \<Rightarrow> (Inr None, []))"
| "selectDirectory (Browser w) =
     (case call_showDirectoryPicker w of
        Inr dirHandle \<Rightarrow> (Inr (Some (Handle dirHandle)), [])
      | Inl e \<Rightarrow>
          (Inr None,
           if instanceof_Error e \<and> error_name e \<noteq> ''AbortError''
           then [(''File System Access API not supported:'', e)] else []))"

text \<open>
  The loop of \<^verbatim>\<open>readMarkdownFilesFromDirectory\<close> in Tauri mode, over the entries that
  \<^verbatim>\<open>readDir\<close> gave: \<open>markdownFiles\<close> is the array filled by \<^verbatim>\<open>push\<close>.
\<close>

fun tauri_entries ::
  "tauri_api \<Rightarrow> dir_entry list \<Rightarrow> File list \<Rightarrow> console \<Rightarrow> File list \<times> console" where
  "tauri_entries api [] markdownFiles log = (markdownFiles, log)"
| "tauri_entries api (entry # entries) markdownFiles log =
     (if isFile entry \<and>
         (endsWith (entry_name entry) ''.md'' \<or> endsWith (entry_name entry) ''.markdown'')
      then
        (case readFile api (entry_path entry) of
           Inr bytes \<Rightarrow>
             tauri_entries api entries
               (markdownFiles @
                  [\<lparr>name = entry_name entry, type = ''text/markdown'', content = bytes\<rparr>])
               log
         | Inl e \<Rightarrow>
             tauri_entries api entries markdownFiles
               (log @ [(''Failed to read file '' @ entry_path entry @ '':'', e)]))
      else tauri_entries api entries markdownFiles log)"

text \<open>
  \<^verbatim>\<open>entry.kind === 'file'\<close> and \<^verbatim>\<open>entry.name\<close> of a handle.
\<close>

fun kind_is_file :: "fs_handle \<Rightarrow> bool" where
  "kind_is_file (FileHandle n g) = True"
| "kind_is_file (DirectoryHandle n es err) = False"

fun handle_name :: "fs_handle \<Rightarrow> string" where
  "handle_name (FileHandle n g) = n"
| "handle_name (DirectoryHandle n es err) = n"

text \<open>
  \<^verbatim>\<open>fileHandle.getFile()\<close>. The source calls it only on an entry whose kind is
  \<^verbatim>\<open>file\<close>; on a directory handle the method does not exist and the call throws.
\<close>

fun getFile :: "fs_handle \<Rightarrow> thrown + File" where
  "getFile (FileHandle n g) = g"
| "getFile (DirectoryHandle n es err) =
     Inl (JsError ''TypeError'' ''fileHandle.getFile is not a function'')"

text \<open>The body of the \<^verbatim>\<open>for await\<close> loop in browser mode, over the entries yielded.\<close>

fun browser_entries ::
  "fs_handle list \<Rightarrow> File list \<Rightarrow> console \<Rightarrow> File list \<times> console" where
  "browser_entries [] markdownFiles log = (markdownFiles, log)"
| "browser_entries (entry # entries) markdownFiles log =
     (if kind_is_file entry \<and>
         (endsWith (handle_name entry) ''.md'' \<or> endsWith (handle_name entry) ''.markdown'')
      then
        (case getFile entry of
           Inr f \<Rightarrow>
             (if type f = [] \<and> endsWith (handle_name entry) ''.md''
              then browser_entries entries
                     (markdownFiles @
                        [\<lparr>name = handle_name entry, type = ''text/markdown'',
                          content = content f\<rparr>])
                     log
              else browser_entries entries (markdownFiles @ [f]) log)
         | Inl e \<Rightarrow>
             browser_entries entries markdownFiles
               (log @ [(''Failed to read file '' @ handle_name entry @ '':'', e)]))
      else browser_entries entries markdownFiles log)"

text \<open>
  \<^verbatim>\<open>dirHandle.values()\<close> on the value that was passed: a directory handle yields its
  entries and then, possibly, the error that ends the iteration; a path string or a
  file handle has no such method, and the call throws before any entry is seen (a
  TypeError, with the message that V8 gives for a \<^verbatim>\<open>for await\<close> over such a call).
\<close>

fun values_of :: "directory \<Rightarrow> fs_handle list \<times> thrown option" where
  "values_of (Handle (DirectoryHandle n es err)) = (es, err)"
| "values_of (Handle (FileHandle n g)) =
     ([], Some (JsError ''TypeError''
        ''dirHandle.values(...) is not a function or its return value is not async iterable''))"
| "values_of (Path p) =
     ([], Some (JsError ''TypeError''
        ''dirHandle.values(...) is not a function or its return value is not async iterable''))"

text \<open>
  \<^verbatim>\<open>readMarkdownFilesFromDirectory\<close>. In Tauri mode \<^verbatim>\<open>readDir\<close> is awaited outside
  any \<^verbatim>\<open>try\<close>, so its rejection is the function's. In browser mode the whole
  iteration is inside \<^verbatim>\<open>try\<close>: an error of the iteration is logged and the files
  pushed so far are returned.
\<close>

fun readMarkdownFilesFromDirectory ::
  "host \<Rightarrow> directory \<Rightarrow> (thrown + File list) \<times> console" where
  "readMarkdownFilesFromDirectory (Tauri api) dirPath =
     (case readDir api dirPath of
        Inl e \<Rightarrow> (Inl e, [])
      | Inr entries \<Rightarrow>
          (case tauri_entries api entries [] [] of
             (markdownFiles, log) \<Rightarrow> (Inr markdownFiles, log)))"
| "readMarkdownFilesFromDirectory (Browser w) dirPath =
     (case values_of dirPath of
        (entries, failure) \<Rightarrow>
          (case browser_entries entries [] [] of
             (markdownFiles, log) \<Rightarrow>
               (Inr markdownFiles,
                case failure of
                  None \<Rightarrow> log
                | Some e \<Rightarrow> log @ [(''Failed to read directory:'', e)])))"

section \<open>services/BookScanner.ts\<close>

text \<open>
  The collaborators that \<^verbatim>\<open>addBookFromFile\<close> calls, \<^verbatim>\<open>handleFileUpload\<close> of
  ServerUpload and \<^verbatim>\<open>db.addBook\<close>, \<^verbatim>\<open>db.addReadingProgress\<close> of DB, are parameters:
  each takes the state \<open>'s\<close> of the library store (and of whatever else it touches) and
  returns the new state with its result or the value it threw. \<open>'b\<close> is the book
  record that \<^verbatim>\<open>handleFileUpload\<close> produces and \<open>'i\<close> the identifier that
  \<^verbatim>\<open>db.addBook\<close> generates.
\<close>

record ('s, 'b, 'i) services =
  handleFileUpload :: "File \<Rightarrow> 's \<Rightarrow> (thrown + 'b) \<times> 's"
  addBook :: "'b \<Rightarrow> 's \<Rightarrow> (thrown + 'i) \<times> 's"
  addReadingProgress :: "'i \<Rightarrow> 's \<Rightarrow> (thrown + unit) \<times> 's"

record scan_error =
  filename :: string
  error :: string

record ScanResult =
  total :: nat
  added :: nat
  skipped :: nat
  errors :: "scan_error list"

text \<open>
  The \<^verbatim>\<open>catch\<close> block of \<^verbatim>\<open>addBookFromFile\<close>: an Error is thrown again as it is,
  any other value is wrapped, \<^verbatim>\<open>new Error(String(error))\<close>.
\<close>

fun rethrow :: "thrown \<Rightarrow> thrown" where
  "rethrow (JsError n m) = JsError n m"
| "rethrow (JsOther v) = new_Error v"

definition addBookFromFile ::
  "('s, 'b, 'i) services \<Rightarrow> File \<Rightarrow> 's \<Rightarrow> (thrown + 'i \<times> 'b) \<times> 's" where
  "addBookFromFile db f s =
     (case handleFileUpload db f s of
        (Inl e, s1) \<Rightarrow> (Inl (rethrow e), s1)
      | (Inr book, s1) \<Rightarrow>
          (case addBook db book s1 of
             (Inl e, s2) \<Rightarrow> (Inl (rethrow e), s2)
           | (Inr ident, s2) \<Rightarrow>
               (case addReadingProgress db ident s2 of
                  (Inl e, s3) \<Rightarrow> (Inl (rethrow e), s3)
                | (Inr u, s3) \<Rightarrow> (Inr (ident, book), s3))))"

text \<open>
  The \<^verbatim>\<open>for\<close> loop of \<^verbatim>\<open>scanDirectory\<close>, with \<open>result\<close> the object it updates.
\<close>

fun scanDirectory_loop ::
  "('s, 'b, 'i) services \<Rightarrow> File list \<Rightarrow> ScanResult \<Rightarrow> 's \<Rightarrow> ScanResult \<times> 's" where
  "scanDirectory_loop db [] result s = (result, s)"
| "scanDirectory_loop db (f # files) result s =
     (case addBookFromFile db f s of
        (Inr r, s') \<Rightarrow> scanDirectory_loop db files (result\<lparr>added := added result + 1\<rparr>) s'
      | (Inl e, s') \<Rightarrow>
          (if instanceof_Error e \<and> error_message e = ''Book already exists''
           then scanDirectory_loop db files (result\<lparr>skipped := skipped result + 1\<rparr>) s'
           else scanDirectory_loop db files
                  (result\<lparr>errors := errors result @
                     [\<lparr>filename = name f, error = message_of e\<rparr>]\<rparr>) s'))"

text \<open>
  \<^verbatim>\<open>scanDirectory\<close>: the files are read, \<open>total\<close> is set and the loop runs; whatever
  the \<^verbatim>\<open>try\<close> block throws is thrown again inside a new Error. The console lines of
  the enumeration are not part of the result.
\<close>

definition scanDirectory ::
  "('s, 'b, 'i) services \<Rightarrow> host \<Rightarrow> directory \<Rightarrow> 's \<Rightarrow> (thrown + ScanResult) \<times> 's" where
  "scanDirectory db h dir s =
     (case fst (readMarkdownFilesFromDirectory h dir) of
        Inl e \<Rightarrow> (Inl (new_Error (''Failed to scan directory: '' @ message_of e)), s)
      | Inr files \<Rightarrow>
          (case scanDirectory_loop db files
                  \<lparr>total = length files, added = 0, skipped = 0, errors = []\<rparr> s of
             (result, s') \<Rightarrow> (Inr result, s')))"

text \<open>The \<^verbatim>\<open>for\<close> loop of \<^verbatim>\<open>addBooksFromFiles\<close>.\<close>

fun addBooksFromFiles_loop ::
  "('s, 'b, 'i) services \<Rightarrow> File list \<Rightarrow> ScanResult \<Rightarrow> 's \<Rightarrow> ScanResult \<times> 's" where
  "addBooksFromFiles_loop db [] result s = (result, s)"
| "addBooksFromFiles_loop db (f # files) result s =
     (case addBookFromFile db f s of
        (Inr r, s') \<Rightarrow>
          addBooksFromFiles_loop db files (result\<lparr>added := added result + 1\<rparr>) s'
      | (Inl e, s') \<Rightarrow>
          (if instanceof_Error e \<and> error_message e = ''Book already exists''
           then addBooksFromFiles_loop db files (result\<lparr>skipped := skipped result + 1\<rparr>) s'
           else addBooksFromFiles_loop db files
                  (result\<lparr>errors := errors result @
                     [\<lparr>filename = name f, error = message_of e\<rparr>]\<rparr>) s'))"

definition addBooksFromFiles ::
  "('s, 'b, 'i) services \<Rightarrow> File list \<Rightarrow> 's \<Rightarrow> ScanResult \<times> 's" where
  "addBooksFromFiles db files s =
     addBooksFromFiles_loop db files
       \<lparr>total = length files, added = 0, skipped = 0, errors = []\<rparr> s"

text \<open>
  Two summaries put together: the counters add up and the error lists follow one another;
  \<open>total\<close> is the first one's. It is how a summary built so far and the summary of the
  files still to come make the summary of the whole batch.
\<close>

definition merge_result :: "ScanResult \<Rightarrow> ScanResult \<Rightarrow> ScanResult" where
  "merge_result r a =
     r\<lparr>added := added r + added a, skipped := skipped r + skipped a,
       errors := errors r @ errors a\<rparr>"

section \<open>The library store and the ingestion steps behind it\<close>

text \<open>
  Modelled from the spec: the files ServerUpload and DB of this repository, which hold
  \<^verbatim>\<open>handleFileUpload\<close>, \<^verbatim>\<open>db.addBook\<close> and \<^verbatim>\<open>db.addReadingProgress\<close>, are missing.
  The spec (4.3, 6) gives the steps: (a) a deterministic fingerprint of the file's
  bytes, (b) the parser producing the book record or failing, (c) a lookup of the store
  by fingerprint that fails with the duplicate error and writes nothing when a record
  has it, (d) the write of the book record under a generated identifier, (e) the write
  of a reading-progress record for that identifier. The fingerprint function and the
  parser are external and are parameters here.
\<close>

record book =
  fileHash :: string
  body :: string

record library =
  books :: "(nat \<times> book) list"
  readingProgress :: "nat list"

text \<open>
  Modelled from the spec: the lookup of the store by fingerprint, which
  \<^verbatim>\<open>BookScanner.bookExists\<close> asks of the missing DB
  (\<^verbatim>\<open>db.books.where('fileHash').equals(hash).first()\<close>).
\<close>

definition bookExists :: "library \<Rightarrow> string \<Rightarrow> bool" where
  "bookExists lib h = (h \<in> set (map (\<lambda>row. fileHash (snd row)) (books lib)))"

text \<open>Modelled from the spec: steps (a) and (b).\<close>

definition library_handleFileUpload ::
  "(string \<Rightarrow> string) \<Rightarrow> (File \<Rightarrow> thrown + string) \<Rightarrow> File \<Rightarrow> library \<Rightarrow>
   (thrown + book) \<times> library" where
  "library_handleFileUpload fingerprint parse f lib =
     (case parse f of
        Inl e \<Rightarrow> (Inl e, lib)
      | Inr parsed \<Rightarrow> (Inr \<lparr>fileHash = fingerprint (content f), body = parsed\<rparr>, lib))"

text \<open>Modelled from the spec: steps (c) and (d); the identifier is the next free row number.\<close>

definition library_addBook :: "book \<Rightarrow> library \<Rightarrow> (thrown + nat) \<times> library" where
  "library_addBook b lib =
     (if bookExists lib (fileHash b) then (Inl (new_Error ''Book already exists''), lib)
      else (Inr (length (books lib)),
            lib\<lparr>books := books lib @ [(length (books lib), b)]\<rparr>))"

text \<open>Modelled from the spec: step (e).\<close>

definition library_addReadingProgress :: "nat \<Rightarrow> library \<Rightarrow> (thrown + unit) \<times> library" where
  "library_addReadingProgress ident lib =
     (Inr (), lib\<lparr>readingProgress := readingProgress lib @ [ident]\<rparr>)"

text \<open>
  Modelled from the spec: step (e) on a store whose writes can fail (4.3: "store
  unavailable", 7: "store write failure"). \<open>fault\<close> says, for the identifier and the
  library at the time of the write, whether the write fails and with what; a write that
  fails raises that value and writes nothing.
\<close>

definition library_addReadingProgress_or_fail ::
  "(nat \<Rightarrow> library \<Rightarrow> thrown option) \<Rightarrow> nat \<Rightarrow> library \<Rightarrow> (thrown + unit) \<times> library" where
  "library_addReadingProgress_or_fail fault ident lib =
     (case fault ident lib of
        Some e \<Rightarrow> (Inl e, lib)
      | None \<Rightarrow> library_addReadingProgress ident lib)"

text \<open>
  Modelled from the spec: the three collaborators of \<^verbatim>\<open>addBookFromFile\<close> on this
  store, for a fingerprint function and a parser.
\<close>

definition library_services ::
  "(string \<Rightarrow> string) \<Rightarrow> (File \<Rightarrow> thrown + string) \<Rightarrow> (library, book, nat) services" where
  "library_services fingerprint parse =
     \<lparr>handleFileUpload = library_handleFileUpload fingerprint parse,
      addBook = library_addBook,
      addReadingProgress = library_addReadingProgress\<rparr>"

text \<open>Modelled from the spec: the same collaborators with the progress write that can fail.\<close>

definition interruptible_library_services ::
  "(string \<Rightarrow> string) \<Rightarrow> (File \<Rightarrow> thrown + string) \<Rightarrow> (nat \<Rightarrow> library \<Rightarrow> thrown option) \<Rightarrow>
   (library, book, nat) services" where
  "interruptible_library_services fingerprint parse fault =
     \<lparr>handleFileUpload = library_handleFileUpload fingerprint parse,
      addBook = library_addBook,
      addReadingProgress = library_addReadingProgress_or_fail fault\<rparr>"

text \<open>
  A file is settled in a library when its ingestion can only end in the duplicate signal:
  the parser fails on it with that message, or its fingerprint is in the library.
\<close>

definition settled ::
  "(string \<Rightarrow> string) \<Rightarrow> (File \<Rightarrow> thrown + string) \<Rightarrow> library \<Rightarrow> File \<Rightarrow> bool" where
  "settled fingerprint parse lib f =
     (case parse f of
        Inl e \<Rightarrow> message_of e = ''Book already exists''
      | Inr parsed \<Rightarrow> bookExists lib (fingerprint (content f)))"

section \<open>Concrete hosts, files and stores\<close>

text \<open>
  A fingerprint and a parser to run the definitions on: the fingerprint of a content is
  the content itself, and the parser accepts a file of type \<^verbatim>\<open>text/markdown\<close> whose
  content is not empty.
\<close>

definition plain_fingerprint :: "string \<Rightarrow> string" where
  "plain_fingerprint c = c"

definition plain_parse :: "File \<Rightarrow> thrown + string" where
  "plain_parse f =
     (if type f \<noteq> ''text/markdown'' then Inl (new_Error ''Unsupported file format'')
      else if content f = [] then Inl (new_Error ''Invalid markdown'')
      else Inr (content f))"

definition plain_services :: "(library, book, nat) services" where
  "plain_services = library_services plain_fingerprint plain_parse"

text \<open>
  The same services with a store whose progress write always fails: with an aborted
  transaction, and with an error that carries the message of the duplicate signal.
\<close>

definition aborted_transaction :: "nat \<Rightarrow> library \<Rightarrow> thrown option" where
  "aborted_transaction ident lib = Some (JsError ''AbortError'' ''Transaction aborted'')"

definition no_progress_services :: "(library, book, nat) services" where
  "no_progress_services =
     interruptible_library_services plain_fingerprint plain_parse aborted_transaction"

definition duplicate_message_fault :: "nat \<Rightarrow> library \<Rightarrow> thrown option" where
  "duplicate_message_fault ident lib = Some (JsError ''Error'' ''Book already exists'')"

definition duplicate_message_services :: "(library, book, nat) services" where
  "duplicate_message_services =
     interruptible_library_services plain_fingerprint plain_parse duplicate_message_fault"

definition empty_library :: library where
  "empty_library = \<lparr>books = [], readingProgress = []\<rparr>"

text \<open>
  A desktop host with two directories. \<^verbatim>\<open>/books\<close> has two markdown files, a text
  file, a file with an upper-case suffix, an empty markdown file, a subdirectory whose
  name ends in \<^verbatim>\<open>.md\<close>, a markdown file that cannot be read, and one more markdown
  file. \<^verbatim>\<open>/shelf\<close> has two markdown files and a copy of the first under another name.
\<close>

definition books_entries :: "dir_entry list" where
  "books_entries =
     [\<lparr>entry_name = ''a.md'', entry_path = ''/books/a.md'', isFile = True\<rparr>,
      \<lparr>entry_name = ''b.markdown'', entry_path = ''/books/b.markdown'', isFile = True\<rparr>,
      \<lparr>entry_name = ''c.txt'', entry_path = ''/books/c.txt'', isFile = True\<rparr>,
      \<lparr>entry_name = ''d.MD'', entry_path = ''/books/d.MD'', isFile = True\<rparr>,
      \<lparr>entry_name = ''empty.md'', entry_path = ''/books/empty.md'', isFile = True\<rparr>,
      \<lparr>entry_name = ''sub.md'', entry_path = ''/books/sub.md'', isFile = False\<rparr>,
      \<lparr>entry_name = ''locked.md'', entry_path = ''/books/locked.md'', isFile = True\<rparr>,
      \<lparr>entry_name = ''e.md'', entry_path = ''/books/e.md'', isFile = True\<rparr>]"

definition shelf_entries :: "dir_entry list" where
  "shelf_entries =
     [\<lparr>entry_name = ''a.md'', entry_path = ''/shelf/a.md'', isFile = True\<rparr>,
      \<lparr>entry_name = ''b.markdown'', entry_path = ''/shelf/b.markdown'', isFile = True\<rparr>,
      \<lparr>entry_name = ''copy.md'', entry_path = ''/shelf/copy.md'', isFile = True\<rparr>]"

definition desktop :: tauri_api where
  "desktop =
     \<lparr>dialog_open = Inr DialogNull,
      readDir = (\<lambda>d. if d = Path ''/books'' then Inr books_entries
                      else if d = Path ''/shelf'' then Inr shelf_entries
                      else Inl (JsError ''Error'' ''No such file or directory'')),
      readFile = (\<lambda>p. if p = ''/books/a.md'' then Inr ''# A''
                       else if p = ''/books/b.markdown'' then Inr ''# B''
                       else if p = ''/shelf/a.md'' then Inr ''# A''
                       else if p = ''/shelf/b.markdown'' then Inr ''# B''
                       else if p = ''/shelf/copy.md'' then Inr ''# A''
                       else if p = ''/books/c.txt'' then Inr ''C''
                       else if p = ''/books/d.MD'' then Inr ''# D''
                       else if p = ''/books/empty.md'' then Inr []
                       else if p = ''/books/e.md'' then Inr ''# E''
                       else Inl (JsError ''Error'' ''Permission denied''))\<rparr>"

text \<open>The files that the desktop host's \<^verbatim>\<open>/books\<close> gives.\<close>

definition file_a :: File where
  "file_a = \<lparr>name = ''a.md'', type = ''text/markdown'', content = ''# A''\<rparr>"

definition file_b :: File where
  "file_b = \<lparr>name = ''b.markdown'', type = ''text/markdown'', content = ''# B''\<rparr>"

definition file_empty :: File where
  "file_empty = \<lparr>name = ''empty.md'', type = ''text/markdown'', content = []\<rparr>"

definition file_e :: File where
  "file_e = \<lparr>name = ''e.md'', type = ''text/markdown'', content = ''# E''\<rparr>"

definition file_copy :: File where
  "file_copy = \<lparr>name = ''copy.md'', type = ''text/markdown'', content = ''# A''\<rparr>"

text \<open>Libraries after imports of these files.\<close>

definition library_a :: library where
  "library_a =
     \<lparr>books = [(0, \<lparr>fileHash = ''# A'', body = ''# A''\<rparr>)], readingProgress = [0]\<rparr>"

definition library_ab :: library where
  "library_ab =
     \<lparr>books = [(0, \<lparr>fileHash = ''# A'', body = ''# A''\<rparr>),
               (1, \<lparr>fileHash = ''# B'', body = ''# B''\<rparr>)],
      readingProgress = [0, 1]\<rparr>"

definition library_abe :: library where
  "library_abe =
     \<lparr>books = [(0, \<lparr>fileHash = ''# A'', body = ''# A''\<rparr>),
               (1, \<lparr>fileHash = ''# B'', body = ''# B''\<rparr>),
               (2, \<lparr>fileHash = ''# E'', body = ''# E''\<rparr>)],
      readingProgress = [0, 1, 2]\<rparr>"

text \<open>A library with the book of \<^verbatim>\<open>a.md\<close> and no progress record for it.\<close>

definition library_a_without_progress :: library where
  "library_a_without_progress =
     \<lparr>books = [(0, \<lparr>fileHash = ''# A'', body = ''# A''\<rparr>)], readingProgress = []\<rparr>"

text \<open>A desktop host whose only entry is a markdown file that cannot be read.\<close>

definition locked_entry :: dir_entry where
  "locked_entry = \<lparr>entry_name = ''a.md'', entry_path = ''/books/a.md'', isFile = True\<rparr>"

definition locked_desktop :: tauri_api where
  "locked_desktop =
     \<lparr>dialog_open = Inr DialogNull,
      readDir = (\<lambda>d. Inr [locked_entry]),
      readFile = (\<lambda>p. Inl (JsError ''Error'' ''Permission denied''))\<rparr>"

text \<open>
  Browser windows: one without the picker, one whose picker the user dismisses; and
  directory handles: one with files whose content type the browser left empty, one whose
  iteration fails before the first entry.
\<close>

definition no_picker :: browser_api where
  "no_picker = \<lparr>showDirectoryPicker = None\<rparr>"

definition dismissed_picker :: browser_api where
  "dismissed_picker =
     \<lparr>showDirectoryPicker = Some (Inl (JsError ''AbortError'' ''The user aborted a request.''))\<rparr>"

definition untyped_notes :: File where
  "untyped_notes = \<lparr>name = ''notes.md'', type = [], content = ''# N''\<rparr>"

definition untyped_long :: File where
  "untyped_long = \<lparr>name = ''long.markdown'', type = [], content = ''# L''\<rparr>"

definition books_handle :: fs_handle where
  "books_handle =
     DirectoryHandle ''books''
       [FileHandle ''notes.md'' (Inr untyped_notes),
        FileHandle ''long.markdown'' (Inr untyped_long),
        FileHandle ''c.txt'' (Inr \<lparr>name = ''c.txt'', type = ''text/plain'', content = ''C''\<rparr>),
        FileHandle ''d.MD'' (Inr \<lparr>name = ''d.MD'', type = [], content = ''# D''\<rparr>),
        DirectoryHandle ''sub.md''
          [FileHandle ''inner.md''
             (Inr \<lparr>name = ''inner.md'', type = ''text/markdown'', content = ''# I''\<rparr>)]
          None,
        FileHandle ''locked.md'' (Inl (JsError ''NotReadableError'' ''The file could not be read.''))]
       None"

definition vanished_handle :: fs_handle where
  "vanished_handle =
     DirectoryHandle ''books'' []
       (Some (JsError ''NotFoundError'' ''A requested file or directory could not be found.''))"

section \<open>Thrown values and the two loops\<close>

lemma message_of_rethrow: "message_of (rethrow e) = message_of e"
  by (cases e) (simp_all add: new_Error_def)

lemma instanceof_Error_rethrow: "instanceof_Error (rethrow e)"
  by (cases e) (simp_all add: new_Error_def)

lemma error_message_is_message_of: "instanceof_Error e \<Longrightarrow> error_message e = message_of e"
  by (cases e) simp_all

text \<open>Whatever \<^verbatim>\<open>addBookFromFile\<close> throws is an Error object.\<close>

lemma addBookFromFile_throws_Error:
  "addBookFromFile db f s = (Inl e, s') \<Longrightarrow> instanceof_Error e"
  by (auto simp: addBookFromFile_def instanceof_Error_rethrow split: prod.splits sum.splits)

text \<open>The loop of \<^verbatim>\<open>scanDirectory\<close> and the loop of \<^verbatim>\<open>addBooksFromFiles\<close> compute the same.\<close>

lemma loops_agree:
  "scanDirectory_loop db files result s = addBooksFromFiles_loop db files result s"
  by (induction files arbitrary: result s) (auto split: prod.splits sum.splits)

lemma loop_append:
  "addBooksFromFiles_loop db (xs @ ys) r s =
     (case addBooksFromFiles_loop db xs r s of (r1, s1) \<Rightarrow> addBooksFromFiles_loop db ys r1 s1)"
  by (induction xs arbitrary: r s) (auto split: prod.splits sum.splits)

lemma loop_counts:
  "addBooksFromFiles_loop db files r s = (r', s') \<Longrightarrow>
     total r' = total r \<and>
     added r' + skipped r' + length (errors r') =
       added r + skipped r + length (errors r) + length files"
proof (induction files arbitrary: r s)
  case Nil
  then show ?case by simp
next
  case (Cons f files)
  then show ?case
    by (fastforce split: prod.splits sum.splits if_splits)
qed

lemma loop_errors_length:
  "addBooksFromFiles_loop db files r s = (r', s') \<Longrightarrow> length (errors r) \<le> length (errors r')"
proof (induction files arbitrary: r s)
  case Nil
  then show ?case by simp
next
  case (Cons f files)
  then show ?case
    by (fastforce split: prod.splits sum.splits if_splits)
qed

text \<open>
  The loop started on a summary built so far gives that summary merged with what the
  loop gives from any other start.
\<close>

lemma loop_shift:
  "addBooksFromFiles_loop db files (merge_result r a) s =
     (case addBooksFromFiles_loop db files a s of (a', s') \<Rightarrow> (merge_result r a', s'))"
proof (induction files arbitrary: a s)
  case Nil
  then show ?case by simp
next
  case (Cons f files)
  have up_added: "(merge_result r a)\<lparr>added := added (merge_result r a) + 1\<rparr> =
      merge_result r (a\<lparr>added := added a + 1\<rparr>)"
    by (simp add: merge_result_def)
  have up_skipped: "(merge_result r a)\<lparr>skipped := skipped (merge_result r a) + 1\<rparr> =
      merge_result r (a\<lparr>skipped := skipped a + 1\<rparr>)"
    by (simp add: merge_result_def)
  have up_errors: "\<And>x. (merge_result r a)\<lparr>errors := errors (merge_result r a) @ [x]\<rparr> =
      merge_result r (a\<lparr>errors := errors a @ [x]\<rparr>)"
    by (simp add: merge_result_def)
  obtain outcome s1 where step: "addBookFromFile db f s = (outcome, s1)"
    by (cases "addBookFromFile db f s")
  show ?case
  proof (cases outcome)
    case (Inr x)
    with step show ?thesis
      by (simp only: addBooksFromFiles_loop.simps prod.case sum.case up_added Cons.IH)
  next
    case (Inl e)
    show ?thesis
    proof (cases "instanceof_Error e \<and> error_message e = ''Book already exists''")
      case True
      from step Inl show ?thesis
        by (simp only: addBooksFromFiles_loop.simps prod.case sum.case if_P [OF True]
              up_skipped Cons.IH)
    next
      case False
      from step Inl show ?thesis
        by (simp only: addBooksFromFiles_loop.simps prod.case sum.case if_not_P [OF False]
              up_errors Cons.IH)
    qed
  qed
qed

lemma merge_result_zero:
  "merge_result r \<lparr>total = n, added = 0, skipped = 0, errors = []\<rparr> = r"
  by (simp add: merge_result_def)

lemma addBooksFromFiles_continue:
  assumes "addBooksFromFiles db files s = (a, s')"
  shows "addBooksFromFiles_loop db files r s = (merge_result r a, s')"
proof -
  let ?z = "\<lparr>total = length files, added = 0, skipped = 0, errors = []\<rparr>"
  have "addBooksFromFiles_loop db files (merge_result r ?z) s = (merge_result r a, s')"
    using assms by (simp add: loop_shift addBooksFromFiles_def)
  then show ?thesis
    by (simp only: merge_result_zero)
qed

lemma scanDirectory_after_enumeration:
  "fst (readMarkdownFilesFromDirectory h dir) = Inr files \<Longrightarrow>
   scanDirectory db h dir s =
     (Inr (fst (addBooksFromFiles db files s)), snd (addBooksFromFiles db files s))"
  by (simp add: scanDirectory_def addBooksFromFiles_def loops_agree split: prod.splits)

lemma addBooksFromFiles_loop_snoc:
  "addBooksFromFiles_loop db (pre @ [f]) r s =
     (case addBooksFromFiles_loop db pre r s of
        (r1, s1) \<Rightarrow>
          (case addBookFromFile db f s1 of
             (Inr x, s2) \<Rightarrow> (r1\<lparr>added := added r1 + 1\<rparr>, s2)
           | (Inl e, s2) \<Rightarrow>
               if message_of e = ''Book already exists''
               then (r1\<lparr>skipped := skipped r1 + 1\<rparr>, s2)
               else (r1\<lparr>errors := errors r1 @
                        [\<lparr>filename = name f, error = message_of e\<rparr>]\<rparr>, s2)))"
  by (auto simp: loop_append error_message_is_message_of
           dest: addBookFromFile_throws_Error split: prod.splits sum.splits)

lemma failure_in_the_middle:
  assumes pre: "addBooksFromFiles db pre s = (r1, s1)"
    and fail: "addBookFromFile db f s1 = (Inl e, s2)"
    and other: "message_of e \<noteq> ''Book already exists''"
    and post: "addBooksFromFiles db post s2 = (r3, s3)"
  shows "addBooksFromFiles db (pre @ f # post) s =
     (\<lparr>total = length pre + 1 + length post,
       added = added r1 + added r3,
       skipped = skipped r1 + skipped r3,
       errors = errors r1 @ \<lparr>filename = name f, error = message_of e\<rparr> # errors r3\<rparr>, s3)"
proof -
  let ?z = "\<lparr>total = length (pre @ f # post), added = 0, skipped = 0, errors = []\<rparr>"
  let ?entry = "\<lparr>filename = name f, error = message_of e\<rparr>"
  let ?r2 = "(merge_result ?z r1)\<lparr>errors := errors (merge_result ?z r1) @ [?entry]\<rparr>"
  have a: "addBooksFromFiles_loop db pre ?z s = (merge_result ?z r1, s1)"
    by (rule addBooksFromFiles_continue [OF pre])
  have not_dup: "\<not> (instanceof_Error e \<and> error_message e = ''Book already exists'')"
    using other addBookFromFile_throws_Error [OF fail]
    by (simp add: error_message_is_message_of)
  have b: "addBooksFromFiles_loop db (f # post) (merge_result ?z r1) s1 =
      addBooksFromFiles_loop db post ?r2 s2"
    by (simp only: addBooksFromFiles_loop.simps fail prod.case sum.case if_not_P [OF not_dup])
  have c: "addBooksFromFiles_loop db post ?r2 s2 = (merge_result ?r2 r3, s3)"
    by (rule addBooksFromFiles_continue [OF post])
  have "addBooksFromFiles db (pre @ f # post) s = (merge_result ?r2 r3, s3)"
    unfolding addBooksFromFiles_def by (simp only: loop_append a prod.case b c)
  then show ?thesis
    by (simp add: merge_result_def)
qed

section \<open>The enumerator\<close>

lemma endsWith_suffix: "endsWith s suf \<longleftrightarrow> suffix suf s"
proof
  assume "endsWith s suf"
  then have "s = take (length s - length suf) s @ suf"
    by (metis append_take_drop_id endsWith_def)
  then show "suffix suf s" by (rule suffixI)
next
  assume "suffix suf s"
  then obtain p where "s = p @ suf" by (auto simp: suffix_def)
  then show "endsWith s suf" by (simp add: endsWith_def)
qed

lemma tauri_entries_files:
  "fst (tauri_entries api entries acc log) =
     acc @ map (\<lambda>x. \<lparr>name = entry_name x, type = ''text/markdown'',
                      content = projr (readFile api (entry_path x))\<rparr>)
             (filter (\<lambda>x. isFile x \<and>
                          (suffix ''.md'' (entry_name x) \<or> suffix ''.markdown'' (entry_name x)) \<and>
                          \<not> isl (readFile api (entry_path x))) entries)"
  by (induction entries arbitrary: acc log) (auto simp: endsWith_suffix split: sum.splits)

lemma browser_entries_files:
  "fst (browser_entries entries acc log) =
     acc @ map (\<lambda>x. if type (projr (getFile x)) = [] \<and> suffix ''.md'' (handle_name x)
                     then \<lparr>name = handle_name x, type = ''text/markdown'',
                           content = content (projr (getFile x))\<rparr>
                     else projr (getFile x))
             (filter (\<lambda>x. kind_is_file x \<and>
                          (suffix ''.md'' (handle_name x) \<or> suffix ''.markdown'' (handle_name x)) \<and>
                          \<not> isl (getFile x)) entries)"
  by (induction entries arbitrary: acc log) (auto simp: endsWith_suffix split: sum.splits)

lemma tauri_entries_log:
  "snd (tauri_entries api entries acc log) =
     log @ map (\<lambda>x. (''Failed to read file '' @ entry_path x @ '':'',
                      projl (readFile api (entry_path x))))
             (filter (\<lambda>x. isFile x \<and>
                          (suffix ''.md'' (entry_name x) \<or> suffix ''.markdown'' (entry_name x)) \<and>
                          isl (readFile api (entry_path x))) entries)"
  by (induction entries arbitrary: acc log) (auto simp: endsWith_suffix split: sum.splits)

lemma browser_entries_log:
  "snd (browser_entries entries acc log) =
     log @ map (\<lambda>x. (''Failed to read file '' @ handle_name x @ '':'', projl (getFile x)))
             (filter (\<lambda>x. kind_is_file x \<and>
                          (suffix ''.md'' (handle_name x) \<or> suffix ''.markdown'' (handle_name x)) \<and>
                          isl (getFile x)) entries)"
  by (induction entries arbitrary: acc log) (auto simp: endsWith_suffix split: sum.splits)

lemma browser_log:
  "snd (readMarkdownFilesFromDirectory (Browser w) dir) =
     snd (browser_entries (fst (values_of dir)) [] []) @
     (case snd (values_of dir) of
        None \<Rightarrow> []
      | Some e \<Rightarrow> [(''Failed to read directory:'', e)])"
  by (simp split: prod.splits option.splits)

lemma tauri_log:
  "snd (readMarkdownFilesFromDirectory (Tauri api) dir) =
     (case readDir api dir of
        Inl e \<Rightarrow> []
      | Inr entries \<Rightarrow> snd (tauri_entries api entries [] []))"
  by (simp split: prod.splits sum.splits)

lemma browser_files:
  "fst (readMarkdownFilesFromDirectory (Browser w) dir) =
     Inr (fst (browser_entries (fst (values_of dir)) [] []))"
  by (simp split: prod.splits)

lemma tauri_files:
  "fst (readMarkdownFilesFromDirectory (Tauri api) dir) =
     (case readDir api dir of
        Inl e \<Rightarrow> Inl e
      | Inr entries \<Rightarrow> Inr (fst (tauri_entries api entries [] [])))"
  by (simp split: prod.splits sum.splits)

section \<open>The library store\<close>

lemma library_addBookFromFile:
  "addBookFromFile (library_services fp parse) f lib =
     (case parse f of
        Inl e \<Rightarrow> (Inl (rethrow e), lib)
      | Inr parsed \<Rightarrow>
          if bookExists lib (fp (content f))
          then (Inl (new_Error ''Book already exists''), lib)
          else (Inr (length (books lib), \<lparr>fileHash = fp (content f), body = parsed\<rparr>),
                lib\<lparr>books := books lib @
                       [(length (books lib), \<lparr>fileHash = fp (content f), body = parsed\<rparr>)],
                    readingProgress := readingProgress lib @ [length (books lib)]\<rparr>))"
  by (simp add: addBookFromFile_def library_services_def library_handleFileUpload_def
        library_addBook_def library_addReadingProgress_def new_Error_def split: sum.splits)

lemma settled_duplicate:
  assumes "settled fp parse lib f"
  shows "\<exists>e. addBookFromFile (library_services fp parse) f lib = (Inl e, lib) \<and>
             instanceof_Error e \<and> error_message e = ''Book already exists''"
proof (cases "parse f")
  case (Inl e)
  with assms have "message_of (rethrow e) = ''Book already exists''"
    by (simp add: settled_def message_of_rethrow)
  then show ?thesis
    using Inl instanceof_Error_rethrow [of e]
    by (simp add: library_addBookFromFile error_message_is_message_of)
next
  case (Inr parsed)
  with assms show ?thesis
    by (simp add: settled_def library_addBookFromFile new_Error_def)
qed

lemma step_keeps_books:
  "addBookFromFile (library_services fp parse) f lib = (x, lib') \<Longrightarrow>
   bookExists lib h \<Longrightarrow> bookExists lib' h"
  by (auto simp: library_addBookFromFile bookExists_def split: sum.splits if_splits)

lemma step_keeps_settled:
  "addBookFromFile (library_services fp parse) f lib = (x, lib') \<Longrightarrow>
   settled fp parse lib g \<Longrightarrow> settled fp parse lib' g"
  by (auto simp: settled_def dest: step_keeps_books split: sum.splits)

lemma step_settles:
  assumes "addBookFromFile (library_services fp parse) f lib = (x, lib')"
    and "case x of Inr y \<Rightarrow> True | Inl e \<Rightarrow> message_of e = ''Book already exists''"
  shows "settled fp parse lib' f"
  using assms
  by (auto simp: library_addBookFromFile settled_def bookExists_def message_of_rethrow
           split: sum.splits if_splits)

lemma loop_keeps_settled:
  "addBooksFromFiles_loop (library_services fp parse) files r lib = (r', lib') \<Longrightarrow>
   settled fp parse lib g \<Longrightarrow> settled fp parse lib' g"
proof (induction files arbitrary: r lib)
  case Nil
  then show ?case by simp
next
  case (Cons f files)
  obtain x lib1 where step: "addBookFromFile (library_services fp parse) f lib = (x, lib1)"
    by (cases "addBookFromFile (library_services fp parse) f lib")
  from step_keeps_settled [OF step Cons.prems(2)] have "settled fp parse lib1 g" .
  with Cons.IH Cons.prems(1) step show ?case
    by (auto split: sum.splits if_splits)
qed

text \<open>A pass that added no entry to the error list leaves every file settled.\<close>

lemma clean_loop_settles:
  "addBooksFromFiles_loop (library_services fp parse) files r lib = (r', lib') \<Longrightarrow>
   errors r' = errors r \<Longrightarrow> \<forall>f \<in> set files. settled fp parse lib' f"
proof (induction files arbitrary: r lib)
  case Nil
  then show ?case by simp
next
  case (Cons f files)
  obtain x lib1 where step: "addBookFromFile (library_services fp parse) f lib = (x, lib1)"
    by (cases "addBookFromFile (library_services fp parse) f lib")
  show ?case
  proof (cases x)
    case (Inr y)
    with step Cons.prems(1)
    have rest: "addBooksFromFiles_loop (library_services fp parse) files
                  (r\<lparr>added := added r + 1\<rparr>) lib1 = (r', lib')"
      by simp
    have "settled fp parse lib1 f"
      using step_settles [OF step] Inr by simp
    then have "settled fp parse lib' f"
      by (rule loop_keeps_settled [OF rest])
    moreover have "\<forall>g \<in> set files. settled fp parse lib' g"
      using Cons.IH [OF rest] Cons.prems(2) by simp
    ultimately show ?thesis by simp
  next
    case (Inl e)
    have is_err: "instanceof_Error e"
      using addBookFromFile_throws_Error [of "library_services fp parse" f lib e lib1] step Inl
      by simp
    show ?thesis
    proof (cases "error_message e = ''Book already exists''")
      case True
      with step Inl is_err Cons.prems(1)
      have rest: "addBooksFromFiles_loop (library_services fp parse) files
                    (r\<lparr>skipped := skipped r + 1\<rparr>) lib1 = (r', lib')"
        by simp
      have "settled fp parse lib1 f"
        using step_settles [OF step] Inl True is_err by (simp add: error_message_is_message_of)
      then have "settled fp parse lib' f"
        by (rule loop_keeps_settled [OF rest])
      moreover have "\<forall>g \<in> set files. settled fp parse lib' g"
        using Cons.IH [OF rest] Cons.prems(2) by simp
      ultimately show ?thesis by simp
    next
      case False
      with step Inl Cons.prems(1)
      have rest: "addBooksFromFiles_loop (library_services fp parse) files
                    (r\<lparr>errors := errors r @ [\<lparr>filename = name f, error = message_of e\<rparr>]\<rparr>)
                    lib1 = (r', lib')"
        by simp
      from loop_errors_length [OF rest] Cons.prems(2) show ?thesis by simp
    qed
  qed
qed

text \<open>A pass over settled files skips each of them and writes nothing.\<close>

lemma settled_loop_skips:
  "\<forall>f \<in> set files. settled fp parse lib f \<Longrightarrow>
   addBooksFromFiles_loop (library_services fp parse) files r lib =
     (r\<lparr>skipped := skipped r + length files\<rparr>, lib)"
proof (induction files arbitrary: r)
  case Nil
  then show ?case by simp
next
  case (Cons f files)
  from Cons.prems have "settled fp parse lib f" by simp
  from settled_duplicate [OF this] obtain e where
    step: "addBookFromFile (library_services fp parse) f lib = (Inl e, lib)"
    and dup: "instanceof_Error e \<and> error_message e = ''Book already exists''"
    by blast
  from Cons.prems have "\<forall>g \<in> set files. settled fp parse lib g" by simp
  from Cons.IH [OF this, of "r\<lparr>skipped := skipped r + 1\<rparr>"] step dup show ?case
    by simp
qed




text \<open>The definitions that a run on the concrete hosts, files and stores unfolds.\<close>

lemmas run_defs =
  scanDirectory_def addBooksFromFiles_def addBookFromFile_def new_Error_def endsWith_def
  call_showDirectoryPicker_def
  plain_services_def no_progress_services_def duplicate_message_services_def
  aborted_transaction_def duplicate_message_fault_def
  library_services_def interruptible_library_services_def
  library_handleFileUpload_def library_addBook_def library_addReadingProgress_def
  library_addReadingProgress_or_fail_def
  bookExists_def plain_fingerprint_def plain_parse_def
  desktop_def books_entries_def shelf_entries_def locked_desktop_def locked_entry_def
  no_picker_def dismissed_picker_def books_handle_def vanished_handle_def
  untyped_notes_def untyped_long_def
  file_a_def file_b_def file_empty_def file_e_def file_copy_def
  empty_library_def library_a_def library_ab_def library_abe_def
  library_a_without_progress_def

section \<open>The batch loop: claims C1, C4, C8 and C10\<close>

text \<open>
  C1 (partial-failure isolation). Take a list of candidate files \<open>pre @ f # post\<close>, the
  summary \<open>r1\<close> and store \<open>s1\<close> that the batch \<open>pre\<close> gives, and let the ingestion of
  \<open>f\<close> in \<open>s1\<close> raise an error \<open>e\<close> whose message is not the duplicate signal, leaving
  the store \<open>s2\<close>. Then the batch does not stop at \<open>f\<close>: its summary counts every file
  (\<open>total\<close> is the length of the list), it holds the entry
  \<open>\<lparr>filename = name f, error = message_of e\<rparr>\<close> after the errors of \<open>pre\<close>, and the files
  of \<open>post\<close> are processed from \<open>s2\<close> as they would be as a batch of their own (summary
  \<open>r3\<close>, store \<open>s3\<close>): their counts and errors are added. This holds for
  \<^verbatim>\<open>addBooksFromFiles\<close> on the list and for \<^verbatim>\<open>scanDirectory\<close> on a directory whose
  enumeration gives the list.
\<close>

theorem partial_failure_isolation:
  assumes listed: "fst (readMarkdownFilesFromDirectory h dir) = Inr (pre @ f # post)"
    and pre: "addBooksFromFiles db pre s = (r1, s1)"
    and fail: "addBookFromFile db f s1 = (Inl e, s2)"
    and other: "message_of e \<noteq> ''Book already exists''"
    and post: "addBooksFromFiles db post s2 = (r3, s3)"
  shows "addBooksFromFiles db (pre @ f # post) s =
           (\<lparr>total = length pre + 1 + length post,
             added = added r1 + added r3,
             skipped = skipped r1 + skipped r3,
             errors = errors r1 @ \<lparr>filename = name f, error = message_of e\<rparr> # errors r3\<rparr>,
            s3)
       \<and> scanDirectory db h dir s =
           (Inr \<lparr>total = length pre + 1 + length post,
                 added = added r1 + added r3,
                 skipped = skipped r1 + skipped r3,
                 errors = errors r1 @ \<lparr>filename = name f, error = message_of e\<rparr> # errors r3\<rparr>,
            s3)"
proof -
  have batch: "addBooksFromFiles db (pre @ f # post) s =
           (\<lparr>total = length pre + 1 + length post,
             added = added r1 + added r3,
             skipped = skipped r1 + skipped r3,
             errors = errors r1 @ \<lparr>filename = name f, error = message_of e\<rparr> # errors r3\<rparr>,
            s3)"
    by (rule failure_in_the_middle [OF pre fail other post])
  moreover from scanDirectory_after_enumeration [OF listed, of db s] batch
  have "scanDirectory db h dir s =
           (Inr \<lparr>total = length pre + 1 + length post,
                 added = added r1 + added r3,
                 skipped = skipped r1 + skipped r3,
                 errors = errors r1 @ \<lparr>filename = name f, error = message_of e\<rparr> # errors r3\<rparr>,
            s3)"
    by simp
  ultimately show ?thesis by simp
qed

text \<open>
  The desktop directory \<^verbatim>\<open>/books\<close> gives four candidates of which the third, an empty
  markdown file, fails to parse: the fourth is still imported.
\<close>

theorem partial_failure_isolation_witness:
  "addBooksFromFiles plain_services [file_a, file_b, file_empty, file_e] empty_library =
     (\<lparr>total = 4, added = 3, skipped = 0,
       errors = [\<lparr>filename = ''empty.md'', error = ''Invalid markdown''\<rparr>]\<rparr>, library_abe)
   \<and> scanDirectory plain_services (Tauri desktop) (Path ''/books'') empty_library =
     (Inr \<lparr>total = 4, added = 3, skipped = 0,
           errors = [\<lparr>filename = ''empty.md'', error = ''Invalid markdown''\<rparr>]\<rparr>, library_abe)"
proof -
  have listed: "fst (readMarkdownFilesFromDirectory (Tauri desktop) (Path ''/books'')) =
      Inr ([file_a, file_b] @ file_empty # [file_e])"
    by (simp add: run_defs)
  have pre: "addBooksFromFiles plain_services [file_a, file_b] empty_library =
      (\<lparr>total = 2, added = 2, skipped = 0, errors = []\<rparr>, library_ab)"
    by (simp add: run_defs)
  have fail: "addBookFromFile plain_services file_empty library_ab =
      (Inl (JsError ''Error'' ''Invalid markdown''), library_ab)"
    by (simp add: run_defs)
  have other: "message_of (JsError ''Error'' ''Invalid markdown'') \<noteq> ''Book already exists''"
    by simp
  have post: "addBooksFromFiles plain_services [file_e] library_ab =
      (\<lparr>total = 1, added = 1, skipped = 0, errors = []\<rparr>, library_abe)"
    by (simp add: run_defs)
  show ?thesis
    using partial_failure_isolation [OF listed pre fail other post]
    by (simp add: file_empty_def)
qed

text \<open>
  C4 (per-file classification). In both loops, the summary after one more file \<open>f\<close> is
  the summary before it with exactly one change, chosen by the outcome of the ingestion
  of \<open>f\<close>: success adds one to \<open>added\<close>; an error whose message is the duplicate signal
  adds one to \<open>skipped\<close> and leaves \<open>errors\<close> as it is; any other error appends
  \<open>\<lparr>filename = name f, error = message_of e\<rparr>\<close>, the message of the error as raised, and
  leaves \<open>added\<close> and \<open>skipped\<close> as they are.
\<close>

theorem per_file_classification:
  "scanDirectory_loop db (pre @ [f]) r s =
     (case scanDirectory_loop db pre r s of
        (r1, s1) \<Rightarrow>
          (case addBookFromFile db f s1 of
             (Inr x, s2) \<Rightarrow> (r1\<lparr>added := added r1 + 1\<rparr>, s2)
           | (Inl e, s2) \<Rightarrow>
               if message_of e = ''Book already exists''
               then (r1\<lparr>skipped := skipped r1 + 1\<rparr>, s2)
               else (r1\<lparr>errors := errors r1 @
                        [\<lparr>filename = name f, error = message_of e\<rparr>]\<rparr>, s2)))
   \<and> addBooksFromFiles_loop db (pre @ [f]) r s =
     (case addBooksFromFiles_loop db pre r s of
        (r1, s1) \<Rightarrow>
          (case addBookFromFile db f s1 of
             (Inr x, s2) \<Rightarrow> (r1\<lparr>added := added r1 + 1\<rparr>, s2)
           | (Inl e, s2) \<Rightarrow>
               if message_of e = ''Book already exists''
               then (r1\<lparr>skipped := skipped r1 + 1\<rparr>, s2)
               else (r1\<lparr>errors := errors r1 @
                        [\<lparr>filename = name f, error = message_of e\<rparr>]\<rparr>, s2)))"
  by (simp only: loops_agree addBooksFromFiles_loop_snoc)

text \<open>One file of each kind after \<^verbatim>\<open>a.md\<close>: a copy of it, an empty file, a new file.\<close>

theorem per_file_classification_witness:
  "scanDirectory_loop plain_services ([file_a] @ [file_copy])
     \<lparr>total = 2, added = 0, skipped = 0, errors = []\<rparr> empty_library =
     (\<lparr>total = 2, added = 1, skipped = 1, errors = []\<rparr>, library_a)
   \<and> addBooksFromFiles_loop plain_services ([file_a] @ [file_empty])
     \<lparr>total = 2, added = 0, skipped = 0, errors = []\<rparr> empty_library =
     (\<lparr>total = 2, added = 1, skipped = 0,
       errors = [\<lparr>filename = ''empty.md'', error = ''Invalid markdown''\<rparr>]\<rparr>, library_a)
   \<and> addBooksFromFiles_loop plain_services ([file_a] @ [file_b])
     \<lparr>total = 2, added = 0, skipped = 0, errors = []\<rparr> empty_library =
     (\<lparr>total = 2, added = 2, skipped = 0, errors = []\<rparr>, library_ab)"
proof -
  let ?z = "\<lparr>total = 2, added = 0, skipped = 0, errors = []\<rparr>"
  from per_file_classification [of plain_services "[file_a]" file_copy ?z empty_library]
  have "scanDirectory_loop plain_services ([file_a] @ [file_copy]) ?z empty_library =
      (\<lparr>total = 2, added = 1, skipped = 1, errors = []\<rparr>, library_a)"
    by (simp add: run_defs)
  moreover
  from per_file_classification [of plain_services "[file_a]" file_empty ?z empty_library]
  have "addBooksFromFiles_loop plain_services ([file_a] @ [file_empty]) ?z empty_library =
      (\<lparr>total = 2, added = 1, skipped = 0,
        errors = [\<lparr>filename = ''empty.md'', error = ''Invalid markdown''\<rparr>]\<rparr>, library_a)"
    by (simp add: run_defs)
  moreover
  from per_file_classification [of plain_services "[file_a]" file_b ?z empty_library]
  have "addBooksFromFiles_loop plain_services ([file_a] @ [file_b]) ?z empty_library =
      (\<lparr>total = 2, added = 2, skipped = 0, errors = []\<rparr>, library_ab)"
    by (simp add: run_defs)
  ultimately show ?thesis by simp
qed

text \<open>
  C8 (\<^verbatim>\<open>addBooksFromFiles\<close> is the importing phase of \<^verbatim>\<open>scanDirectory\<close>). When the
  enumeration of the directory gives the list \<open>files\<close>, \<^verbatim>\<open>scanDirectory\<close> returns the
  summary that \<^verbatim>\<open>addBooksFromFiles\<close> returns for \<open>files\<close> from the same store, field by
  field, and leaves the same store; the total of that summary is the length of the list.
\<close>

theorem addBooksFromFiles_is_importing_phase:
  assumes "fst (readMarkdownFilesFromDirectory h dir) = Inr files"
  shows "scanDirectory db h dir s =
           (Inr (fst (addBooksFromFiles db files s)), snd (addBooksFromFiles db files s))
       \<and> total (fst (addBooksFromFiles db files s)) = length files"
proof
  show "scanDirectory db h dir s =
      (Inr (fst (addBooksFromFiles db files s)), snd (addBooksFromFiles db files s))"
    using assms by (rule scanDirectory_after_enumeration)
next
  obtain r s' where run: "addBooksFromFiles db files s = (r, s')"
    by (cases "addBooksFromFiles db files s")
  then have "total r = length files"
    unfolding addBooksFromFiles_def by (auto dest: loop_counts)
  with run show "total (fst (addBooksFromFiles db files s)) = length files"
    by simp
qed

theorem addBooksFromFiles_is_importing_phase_witness:
  "scanDirectory plain_services (Tauri desktop) (Path ''/shelf'') empty_library =
     (Inr \<lparr>total = 3, added = 2, skipped = 1, errors = []\<rparr>, library_ab)
   \<and> addBooksFromFiles plain_services [file_a, file_b, file_copy] empty_library =
     (\<lparr>total = 3, added = 2, skipped = 1, errors = []\<rparr>, library_ab)"
proof -
  have listed: "fst (readMarkdownFilesFromDirectory (Tauri desktop) (Path ''/shelf'')) =
      Inr [file_a, file_b, file_copy]"
    by (simp add: run_defs)
  have batch: "addBooksFromFiles plain_services [file_a, file_b, file_copy] empty_library =
      (\<lparr>total = 3, added = 2, skipped = 1, errors = []\<rparr>, library_ab)"
    by (simp add: run_defs)
  from addBooksFromFiles_is_importing_phase [OF listed, of plain_services empty_library]
  show ?thesis
    by (simp add: batch)
qed

text \<open>
  C10 (the counters partition the candidates). In every summary that
  \<^verbatim>\<open>addBooksFromFiles\<close> or \<^verbatim>\<open>scanDirectory\<close> returns, \<open>total\<close> is the sum of \<open>added\<close>,
  \<open>skipped\<close> and the length of \<open>errors\<close>.
\<close>

theorem summary_counters_partition:
  "(addBooksFromFiles db files s = (r, s') \<longrightarrow>
      total r = added r + skipped r + length (errors r))
   \<and> (scanDirectory db h dir t = (Inr r2, t') \<longrightarrow>
      total r2 = added r2 + skipped r2 + length (errors r2))"
proof (intro conjI impI)
  assume "addBooksFromFiles db files s = (r, s')"
  then show "total r = added r + skipped r + length (errors r)"
    unfolding addBooksFromFiles_def by (auto dest: loop_counts)
next
  assume scan: "scanDirectory db h dir t = (Inr r2, t')"
  then obtain listed where
    "fst (readMarkdownFilesFromDirectory h dir) = Inr listed"
    by (auto simp: scanDirectory_def split: sum.splits)
  with scan have "addBooksFromFiles_loop db listed
      \<lparr>total = length listed, added = 0, skipped = 0, errors = []\<rparr> t = (r2, t')"
    by (auto simp: scanDirectory_def loops_agree split: prod.splits)
  then show "total r2 = added r2 + skipped r2 + length (errors r2)"
    by (auto dest: loop_counts)
qed

theorem summary_counters_partition_witness:
  "addBooksFromFiles plain_services [file_a, file_empty, file_copy] empty_library =
     (\<lparr>total = 3, added = 1, skipped = 1,
       errors = [\<lparr>filename = ''empty.md'', error = ''Invalid markdown''\<rparr>]\<rparr>, library_a)
   \<and> scanDirectory plain_services (Tauri desktop) (Path ''/books'') library_a =
     (Inr \<lparr>total = 4, added = 2, skipped = 1,
           errors = [\<lparr>filename = ''empty.md'', error = ''Invalid markdown''\<rparr>]\<rparr>,
      \<lparr>books = [(0, \<lparr>fileHash = ''# A'', body = ''# A''\<rparr>),
                (1, \<lparr>fileHash = ''# B'', body = ''# B''\<rparr>),
                (2, \<lparr>fileHash = ''# E'', body = ''# E''\<rparr>)],
        readingProgress = [0, 1, 2]\<rparr>)
   \<and> (3::nat) = 1 + 1 + length [\<lparr>filename = ''empty.md'', error = ''Invalid markdown''\<rparr>]
   \<and> (4::nat) = 2 + 1 + length [\<lparr>filename = ''empty.md'', error = ''Invalid markdown''\<rparr>]"
proof -
  have batch: "addBooksFromFiles plain_services [file_a, file_empty, file_copy] empty_library =
     (\<lparr>total = 3, added = 1, skipped = 1,
       errors = [\<lparr>filename = ''empty.md'', error = ''Invalid markdown''\<rparr>]\<rparr>, library_a)"
    by (simp add: run_defs)
  have scan: "scanDirectory plain_services (Tauri desktop) (Path ''/books'') library_a =
     (Inr \<lparr>total = 4, added = 2, skipped = 1,
           errors = [\<lparr>filename = ''empty.md'', error = ''Invalid markdown''\<rparr>]\<rparr>,
      \<lparr>books = [(0, \<lparr>fileHash = ''# A'', body = ''# A''\<rparr>),
                (1, \<lparr>fileHash = ''# B'', body = ''# B''\<rparr>),
                (2, \<lparr>fileHash = ''# E'', body = ''# E''\<rparr>)],
        readingProgress = [0, 1, 2]\<rparr>)"
    by (simp add: run_defs)
  from summary_counters_partition
      [where db = plain_services and files = "[file_a, file_empty, file_copy]"
         and s = empty_library and h = "Tauri desktop" and dir = "Path ''/books''"
         and t = library_a]
    batch scan
  show ?thesis
    by simp
qed

section \<open>Ingestion and the store: claims C2 and C7\<close>

text \<open>
  C2 (idempotent re-scan), on the library store modelled from the spec. The host and the
  directory are the same in both runs, so the enumeration gives the same files. If the
  first call of \<^verbatim>\<open>scanDirectory\<close> returned a summary with no error entry (every file
  was imported or was already present) and left the library \<open>lib1\<close>, then the second
  call, from \<open>lib1\<close>, returns \<open>added = 0\<close> and \<open>skipped = total\<close> with no error entry, and
  the library is still \<open>lib1\<close>: no second entry is written for any content.
\<close>

theorem idempotent_rescan:
  assumes first: "scanDirectory (library_services fp parse) h dir lib0 = (Inr r1, lib1)"
    and clean: "errors r1 = []"
  shows "scanDirectory (library_services fp parse) h dir lib1 =
           (Inr \<lparr>total = total r1, added = 0, skipped = total r1, errors = []\<rparr>, lib1)"
proof -
  from first obtain files where
    listed: "fst (readMarkdownFilesFromDirectory h dir) = Inr files"
    by (auto simp: scanDirectory_def split: sum.splits)
  let ?z = "\<lparr>total = length files, added = 0, skipped = 0, errors = []\<rparr>"
  from first listed
  have run: "addBooksFromFiles_loop (library_services fp parse) files ?z lib0 = (r1, lib1)"
    by (auto simp: scanDirectory_def loops_agree split: prod.splits)
  from loop_counts [OF run] have size: "total r1 = length files"
    by simp
  from clean_loop_settles [OF run] clean
  have "\<forall>f \<in> set files. settled fp parse lib1 f"
    by simp
  from settled_loop_skips [OF this, of ?z] show ?thesis
    using listed size by (simp add: scanDirectory_def loops_agree)
qed

text \<open>
  The desktop directory \<^verbatim>\<open>/shelf\<close>, scanned into an empty library and then again:
  the copy of \<^verbatim>\<open>a.md\<close> under another name is a duplicate already in the first run.
\<close>

theorem idempotent_rescan_witness:
  "scanDirectory plain_services (Tauri desktop) (Path ''/shelf'') empty_library =
     (Inr \<lparr>total = 3, added = 2, skipped = 1, errors = []\<rparr>, library_ab)
   \<and> scanDirectory plain_services (Tauri desktop) (Path ''/shelf'') library_ab =
     (Inr \<lparr>total = 3, added = 0, skipped = 3, errors = []\<rparr>, library_ab)"
proof -
  let ?r1 = "\<lparr>total = 3, added = 2, skipped = 1, errors = []\<rparr>"
  have first: "scanDirectory (library_services plain_fingerprint plain_parse) (Tauri desktop)
      (Path ''/shelf'') empty_library = (Inr ?r1, library_ab)"
    by (simp add: run_defs)
  have clean: "errors ?r1 = []"
    by simp
  from idempotent_rescan [OF first clean] first show ?thesis
    by (simp add: plain_services_def)
qed




section \<open>The enumerator: claims C3, C5 and C6\<close>

text \<open>
  C3 (a failure of the listing), as the code has it. In Tauri mode a rejection of
  \<^verbatim>\<open>readDir\<close> makes \<^verbatim>\<open>scanDirectory\<close> raise a new Error whose message is
  \<^verbatim>\<open>Failed to scan directory: \<close> followed by the message of the cause; no summary is
  returned and the store is untouched. In browser mode the enumerator catches the error
  of the iteration and logs it: it returns the files of the entries yielded before the
  failure, and its console has, after the lines of those entries, the line
  \<^verbatim>\<open>Failed to read directory:\<close> with the error. So \<^verbatim>\<open>scanDirectory\<close> never raises in
  browser mode: it returns the summary that it returns when the iteration ends normally
  after the same entries, which has \<open>total = 0\<close> when the iteration fails before the first
  entry.
\<close>

theorem listing_failure:
  "(readDir api dir = Inl e \<longrightarrow>
      scanDirectory db (Tauri api) dir s =
        (Inl (new_Error (''Failed to scan directory: '' @ message_of e)), s))
   \<and> readMarkdownFilesFromDirectory (Browser w) (Handle (DirectoryHandle n handles (Some e'))) =
       (fst (readMarkdownFilesFromDirectory (Browser w) (Handle (DirectoryHandle n handles None))),
        snd (readMarkdownFilesFromDirectory (Browser w) (Handle (DirectoryHandle n handles None)))
          @ [(''Failed to read directory:'', e')])
   \<and> scanDirectory db (Browser w) (Handle (DirectoryHandle n handles (Some e'))) s =
       scanDirectory db (Browser w) (Handle (DirectoryHandle n handles None)) s
   \<and> scanDirectory db (Browser w) (Handle (DirectoryHandle n [] (Some e'))) s =
       (Inr \<lparr>total = 0, added = 0, skipped = 0, errors = []\<rparr>, s)
   \<and> (\<exists>files. fst (readMarkdownFilesFromDirectory (Browser w) dir') = Inr files)
   \<and> (\<exists>r s'. scanDirectory db (Browser w) dir' s = (Inr r, s'))"
proof (intro conjI impI)
  assume "readDir api dir = Inl e"
  then show "scanDirectory db (Tauri api) dir s =
      (Inl (new_Error (''Failed to scan directory: '' @ message_of e)), s)"
    by (simp add: scanDirectory_def)
next
  show "readMarkdownFilesFromDirectory (Browser w)
          (Handle (DirectoryHandle n handles (Some e'))) =
       (fst (readMarkdownFilesFromDirectory (Browser w) (Handle (DirectoryHandle n handles None))),
        snd (readMarkdownFilesFromDirectory (Browser w) (Handle (DirectoryHandle n handles None)))
          @ [(''Failed to read directory:'', e')])"
    by (simp add: prod_eq_iff browser_files browser_log
          del: readMarkdownFilesFromDirectory.simps)
next
  show "scanDirectory db (Browser w) (Handle (DirectoryHandle n handles (Some e'))) s =
       scanDirectory db (Browser w) (Handle (DirectoryHandle n handles None)) s"
    by (simp add: scanDirectory_def browser_files del: readMarkdownFilesFromDirectory.simps)
next
  show "scanDirectory db (Browser w) (Handle (DirectoryHandle n [] (Some e'))) s =
       (Inr \<lparr>total = 0, added = 0, skipped = 0, errors = []\<rparr>, s)"
    by (simp add: scanDirectory_def)
next
  show "\<exists>files. fst (readMarkdownFilesFromDirectory (Browser w) dir') = Inr files"
    by (simp add: browser_files del: readMarkdownFilesFromDirectory.simps)
next
  show "\<exists>r s'. scanDirectory db (Browser w) dir' s = (Inr r, s')"
    by (simp add: scanDirectory_def browser_files
          del: readMarkdownFilesFromDirectory.simps split: prod.splits)
qed

text \<open>
  On the desktop a directory that does not exist makes the scan raise; in the browser
  the enumerator of the vanished directory returns no file and logs the failure.
\<close>

theorem listing_failure_witness:
  "scanDirectory plain_services (Tauri desktop) (Path ''/nowhere'') library_a =
     (Inl (JsError ''Error'' ''Failed to scan directory: No such file or directory''),
      library_a)
   \<and> readMarkdownFilesFromDirectory (Browser no_picker) (Handle vanished_handle) =
     (Inr [],
      [(''Failed to read directory:'',
        JsError ''NotFoundError'' ''A requested file or directory could not be found.'')])"
proof -
  let ?gone = "JsError ''NotFoundError'' ''A requested file or directory could not be found.''"
  have gone: "readDir desktop (Path ''/nowhere'') =
      Inl (JsError ''Error'' ''No such file or directory'')"
    by (simp add: desktop_def)
  have empty: "readMarkdownFilesFromDirectory (Browser no_picker)
      (Handle (DirectoryHandle ''books'' [] None)) = (Inr [], [])"
    by simp
  from listing_failure
      [where api = desktop and dir = "Path ''/nowhere''" and db = plain_services
         and s = library_a and w = no_picker and n = "''books''" and handles = "[]"
         and e' = ?gone]
    gone empty
  show ?thesis
    by (simp add: new_Error_def vanished_handle_def)
qed

text \<open>
  In browser mode a directory whose iteration fails before the first entry gives a
  summary with \<open>total = 0\<close>, not an error.
\<close>

theorem listing_failure_counterexample:
  "values_of (Handle vanished_handle) =
     ([], Some (JsError ''NotFoundError'' ''A requested file or directory could not be found.''))
   \<and> scanDirectory plain_services (Browser no_picker) (Handle vanished_handle) empty_library =
     (Inr \<lparr>total = 0, added = 0, skipped = 0, errors = []\<rparr>, empty_library)"
  by (simp add: vanished_handle_def scanDirectory_def)

text \<open>
  C5 (the extension filter), as the code has it. The candidates are, in the order of the
  listing, one file for each entry of the directory that is a regular file, has a name
  ending in \<^verbatim>\<open>.md\<close> or \<^verbatim>\<open>.markdown\<close> (compared character by character, so case
  matters), and whose content could be read (\<^verbatim>\<open>readFile\<close>, \<^verbatim>\<open>getFile\<close>). An entry
  that is such a file and whose read fails gives no candidate and one line of the
  console, \<^verbatim>\<open>Failed to read file\<close> with its path (its name, in browser mode) and the
  error of the read; no other entry is logged. Only the entries of the directory itself
  are looked at: an entry that is a directory gives nothing, whatever it holds. In
  browser mode the entries are those that the iteration yielded, and a failure of the
  iteration is one more line at the end of the console.
\<close>

theorem extension_filter:
  "(readDir api dir = Inr entries \<longrightarrow>
      readMarkdownFilesFromDirectory (Tauri api) dir =
        (Inr (map (\<lambda>x. \<lparr>name = entry_name x, type = ''text/markdown'',
                         content = projr (readFile api (entry_path x))\<rparr>)
                (filter (\<lambda>x. isFile x \<and>
                           (suffix ''.md'' (entry_name x) \<or> suffix ''.markdown'' (entry_name x)) \<and>
                           \<not> isl (readFile api (entry_path x))) entries)),
         map (\<lambda>x. (''Failed to read file '' @ entry_path x @ '':'',
                    projl (readFile api (entry_path x))))
           (filter (\<lambda>x. isFile x \<and>
                      (suffix ''.md'' (entry_name x) \<or> suffix ''.markdown'' (entry_name x)) \<and>
                      isl (readFile api (entry_path x))) entries)))
   \<and> readMarkdownFilesFromDirectory (Browser w) (Handle (DirectoryHandle n handles failure)) =
        (Inr (map (\<lambda>x. if type (projr (getFile x)) = [] \<and> suffix ''.md'' (handle_name x)
                      then \<lparr>name = handle_name x, type = ''text/markdown'',
                            content = content (projr (getFile x))\<rparr>
                      else projr (getFile x))
                (filter (\<lambda>x. kind_is_file x \<and>
                           (suffix ''.md'' (handle_name x) \<or> suffix ''.markdown'' (handle_name x)) \<and>
                           \<not> isl (getFile x)) handles)),
         map (\<lambda>x. (''Failed to read file '' @ handle_name x @ '':'', projl (getFile x)))
           (filter (\<lambda>x. kind_is_file x \<and>
                      (suffix ''.md'' (handle_name x) \<or> suffix ''.markdown'' (handle_name x)) \<and>
                      isl (getFile x)) handles)
         @ (case failure of
              None \<Rightarrow> []
            | Some e \<Rightarrow> [(''Failed to read directory:'', e)]))"
  by (simp add: prod_eq_iff tauri_files tauri_log browser_files browser_log
        tauri_entries_files tauri_entries_log browser_entries_files browser_entries_log
        del: readMarkdownFilesFromDirectory.simps)

text \<open>
  The desktop directory \<^verbatim>\<open>/books\<close> and the browser directory \<^verbatim>\<open>books\<close>: the text
  file, the file with the upper-case suffix, the subdirectory (and the file in it) and
  the unreadable file give no candidate, and only the unreadable file is logged.
\<close>

theorem extension_filter_witness:
  "readMarkdownFilesFromDirectory (Tauri desktop) (Path ''/books'') =
     (Inr [file_a, file_b, file_empty, file_e],
      [(''Failed to read file /books/locked.md:'', JsError ''Error'' ''Permission denied'')])
   \<and> readMarkdownFilesFromDirectory (Browser no_picker) (Handle books_handle) =
     (Inr [\<lparr>name = ''notes.md'', type = ''text/markdown'', content = ''# N''\<rparr>, untyped_long],
      [(''Failed to read file locked.md:'',
        JsError ''NotReadableError'' ''The file could not be read.'')])"
proof -
  have listing: "readDir desktop (Path ''/books'') = Inr books_entries"
    by (simp add: desktop_def)
  from extension_filter [of desktop "Path ''/books''" books_entries no_picker "''books''"]
    listing
  have "readMarkdownFilesFromDirectory (Tauri desktop) (Path ''/books'') =
     (Inr [file_a, file_b, file_empty, file_e],
      [(''Failed to read file /books/locked.md:'', JsError ''Error'' ''Permission denied'')])"
    by (simp add: run_defs suffix_to_prefix)
  moreover
  from extension_filter [of desktop "Path ''/books''" books_entries no_picker "''books''"]
  have "readMarkdownFilesFromDirectory (Browser no_picker) (Handle books_handle) =
     (Inr [\<lparr>name = ''notes.md'', type = ''text/markdown'', content = ''# N''\<rparr>, untyped_long],
      [(''Failed to read file locked.md:'',
        JsError ''NotReadableError'' ''The file could not be read.'')])"
    by (simp add: run_defs suffix_to_prefix)
  ultimately show ?thesis by simp
qed

text \<open>
  A regular file named \<^verbatim>\<open>a.md\<close> that cannot be read is an entry of the listing and
  gives no candidate.
\<close>

theorem extension_filter_counterexample:
  "readDir locked_desktop (Path ''/books'') = Inr [locked_entry]
   \<and> isFile locked_entry
   \<and> endsWith (entry_name locked_entry) ''.md''
   \<and> fst (readMarkdownFilesFromDirectory (Tauri locked_desktop) (Path ''/books'')) = Inr []"
  by (simp add: locked_desktop_def locked_entry_def endsWith_def)

text \<open>
  C6 (content-type repair). In browser mode, an entry of the directory that is a file
  handle named \<open>n\<close>, with \<open>n\<close> ending in \<^verbatim>\<open>.md\<close>, whose \<^verbatim>\<open>getFile()\<close> gives a file
  \<open>f\<close> with an empty content type, gives the candidate with name \<open>n\<close>, content type
  \<^verbatim>\<open>text/markdown\<close> and the content of \<open>f\<close>: the list of candidates is the candidates of
  the entries before it, this candidate, and the candidates of the entries after it.
\<close>

theorem content_type_repair:
  assumes "type f = []" and "endsWith n ''.md''"
  shows "\<exists>before after.
      fst (readMarkdownFilesFromDirectory (Browser w)
             (Handle (DirectoryHandle d (pre @ FileHandle n (Inr f) # post) failure))) =
        Inr (before @ \<lparr>name = n, type = ''text/markdown'', content = content f\<rparr> # after) \<and>
      fst (readMarkdownFilesFromDirectory (Browser w) (Handle (DirectoryHandle d pre None))) =
        Inr before \<and>
      fst (readMarkdownFilesFromDirectory (Browser w) (Handle (DirectoryHandle d post None))) =
        Inr after"
  using assms
  by (simp add: browser_files browser_entries_files endsWith_suffix
        del: readMarkdownFilesFromDirectory.simps)

text \<open>
  A directory with \<^verbatim>\<open>notes.md\<close> alone, its content type empty: the one candidate has
  the type \<^verbatim>\<open>text/markdown\<close>, and the ingestion accepts it.
\<close>

theorem content_type_repair_witness:
  "fst (readMarkdownFilesFromDirectory (Browser no_picker)
          (Handle (DirectoryHandle ''books'' [FileHandle ''notes.md'' (Inr untyped_notes)] None))) =
     Inr [\<lparr>name = ''notes.md'', type = ''text/markdown'', content = ''# N''\<rparr>]"
proof -
  have untyped: "type untyped_notes = []"
    by (simp add: untyped_notes_def)
  have md: "endsWith ''notes.md'' ''.md''"
    by (simp add: endsWith_def)
  from content_type_repair [OF untyped md, of no_picker "''books''" "[]" "[]" None]
  show ?thesis
    by (simp add: untyped_notes_def)
qed

section \<open>Selecting a directory: claim C9\<close>

text \<open>
  C9 (cancellation is silent). In Tauri mode a dismissed dialog resolves to null and
  \<^verbatim>\<open>selectDirectory\<close> returns null, writing nothing. In browser mode
  \<^verbatim>\<open>selectDirectory\<close> returns null when the picker is absent and whenever the picker
  rejects, and it raises nothing; for the rejection of a dismissed picker, an Error
  named \<^verbatim>\<open>AbortError\<close>, nothing is written to the console either.
\<close>

theorem cancellation_is_silent:
  "(dialog_open api = Inr DialogNull \<longrightarrow> selectDirectory (Tauri api) = (Inr None, []))
   \<and> (showDirectoryPicker w1 = None \<longrightarrow> fst (selectDirectory (Browser w1)) = Inr None)
   \<and> (showDirectoryPicker w2 = Some (Inl e) \<longrightarrow>
        fst (selectDirectory (Browser w2)) = Inr None \<and>
        (error_name e = ''AbortError'' \<longrightarrow> snd (selectDirectory (Browser w2)) = []))"
  by (simp add: call_showDirectoryPicker_def)

theorem cancellation_is_silent_witness:
  "selectDirectory (Tauri desktop) = (Inr None, [])
   \<and> fst (selectDirectory (Browser no_picker)) = Inr None
   \<and> selectDirectory (Browser dismissed_picker) = (Inr None, [])"
proof -
  let ?abort = "JsError ''AbortError'' ''The user aborted a request.''"
  have dismissed: "dialog_open desktop = Inr DialogNull"
    by (simp add: desktop_def)
  have absent: "showDirectoryPicker no_picker = None"
    by (simp add: no_picker_def)
  have rejected: "showDirectoryPicker dismissed_picker = Some (Inl ?abort)"
    by (simp add: dismissed_picker_def)
  have named: "error_name ?abort = ''AbortError''"
    by simp
  from cancellation_is_silent [of desktop no_picker dismissed_picker ?abort]
    dismissed absent rejected named
  show ?thesis
    by (simp add: prod_eq_iff)
qed

end
